theory Spec2Isabelle
  imports Main "HOL-Library.Char_ord" "HOL-Library.List_Lexorder" "HOL-Library.Multiset"
begin

section \<open>JSON values and the Python operations the handlers apply to them\<close>

text \<open>
  The request bodies (\<open>request.get_json()\<close>) and the response bodies (\<open>jsonify(...)\<close>)
  of \<open>backend/app.py\<close> are JSON values. A missing body is Python's \<open>None\<close>, here
  \<open>JNull\<close>. Numbers are Python's unbounded integers; floating-point numbers are left out.
  An object is an association list in insertion order, as a Python dict iterates.
\<close>

datatype json =
    JNull
  | JBool bool
  | JNum int
  | JStr string
  | JArr "json list"
  | JObj "(string \<times> json) list"

text \<open>The exceptions a handler can let escape (Flask answers them with a 500).\<close>

datatype py_error = TypeError | KeyError | AttributeError

text \<open>Python's truth value of a JSON value, as \<open>not data\<close> tests it.\<close>

fun py_truthy :: "json \<Rightarrow> bool" where
  "py_truthy JNull = False"
| "py_truthy (JBool b) = b"
| "py_truthy (JNum n) = (n \<noteq> 0)"
| "py_truthy (JStr s) = (s \<noteq> [])"
| "py_truthy (JArr xs) = (xs \<noteq> [])"
| "py_truthy (JObj kvs) = (kvs \<noteq> [])"

fun starts_with :: "string \<Rightarrow> string \<Rightarrow> bool" where
  "starts_with s [] = True"
| "starts_with [] (p # ps) = False"
| "starts_with (c # cs) (p # ps) = (c = p \<and> starts_with cs ps)"

fun str_contains :: "string \<Rightarrow> string \<Rightarrow> bool" where
  "str_contains [] sub = (sub = [])"
| "str_contains (c # cs) sub = (starts_with (c # cs) sub \<or> str_contains cs sub)"

text \<open>
  \<open>key in data\<close> for a string \<open>key\<close>: key membership on a dict, element membership on a
  list, substring test on a string, and \<open>TypeError\<close> on a number, a boolean or \<open>None\<close>
  (``argument of type 'int' is not iterable'').
\<close>

fun py_in :: "string \<Rightarrow> json \<Rightarrow> py_error + bool" where
  "py_in key (JObj kvs) = Inr (key \<in> set (map fst kvs))"
| "py_in key (JArr xs) = Inr (JStr key \<in> set xs)"
| "py_in key (JStr s) = Inr (str_contains s key)"
| "py_in key (JNum n) = Inl TypeError"
| "py_in key (JBool b) = Inl TypeError"
| "py_in key JNull = Inl TypeError"

text \<open>
  \<open>data[key]\<close> for a string \<open>key\<close>: the value on a dict (\<open>KeyError\<close> when absent),
  \<open>TypeError\<close> on everything else (a list and a string want integer indices, the rest is
  not subscriptable).
\<close>

fun py_getitem :: "json \<Rightarrow> string \<Rightarrow> py_error + json" where
  "py_getitem (JObj kvs) key = (case map_of kvs key of None \<Rightarrow> Inl KeyError | Some v \<Rightarrow> Inr v)"
| "py_getitem (JArr xs) key = Inl TypeError"
| "py_getitem (JStr s) key = Inl TypeError"
| "py_getitem (JNum n) key = Inl TypeError"
| "py_getitem (JBool b) key = Inl TypeError"
| "py_getitem JNull key = Inl TypeError"

text \<open>\<open>data.get(key, default)\<close>: only a dict has the method.\<close>

fun py_get :: "json \<Rightarrow> string \<Rightarrow> json \<Rightarrow> py_error + json" where
  "py_get (JObj kvs) key dflt = (case map_of kvs key of None \<Rightarrow> Inr dflt | Some v \<Rightarrow> Inr v)"
| "py_get (JArr xs) key dflt = Inl AttributeError"
| "py_get (JStr s) key dflt = Inl AttributeError"
| "py_get (JNum n) key dflt = Inl AttributeError"
| "py_get (JBool b) key dflt = Inl AttributeError"
| "py_get JNull key dflt = Inl AttributeError"

text \<open>\<open>len(x)\<close>: defined on strings, lists and dicts.\<close>

fun py_len :: "json \<Rightarrow> py_error + nat" where
  "py_len (JObj kvs) = Inr (length kvs)"
| "py_len (JArr xs) = Inr (length xs)"
| "py_len (JStr s) = Inr (length s)"
| "py_len (JNum n) = Inl TypeError"
| "py_len (JBool b) = Inl TypeError"
| "py_len JNull = Inl TypeError"

text \<open>
  \<open>str.strip()\<close> removes leading and trailing whitespace. A \<open>char\<close> is a code point
  below 256; of those, \<open>str.isspace\<close> holds for tab, line feed, vertical tab, form feed,
  carriage return, the separators 28 to 31, space, NEL (133) and the no-break space (160).
\<close>

definition py_isspace :: "char \<Rightarrow> bool" where
  "py_isspace c = ((of_char c :: nat) \<in> {9, 10, 11, 12, 13, 28, 29, 30, 31, 32, 133, 160})"

definition str_strip :: "string \<Rightarrow> string" where
  "str_strip s = rev (dropWhile py_isspace (rev (dropWhile py_isspace s)))"

text \<open>\<open>x.strip()\<close> on a JSON value: only a string has the method.\<close>

fun py_strip :: "json \<Rightarrow> py_error + string" where
  "py_strip (JStr s) = Inr (str_strip s)"
| "py_strip (JObj kvs) = Inl AttributeError"
| "py_strip (JArr xs) = Inl AttributeError"
| "py_strip (JNum n) = Inl AttributeError"
| "py_strip (JBool b) = Inl AttributeError"
| "py_strip JNull = Inl AttributeError"

section \<open>Dicts in insertion order\<close>

text \<open>
  \<open>tasks\<close> and \<open>comments\<close> are Python dicts from an id to a record. A dict keeps its
  keys in insertion order (\<open>values()\<close> and \<open>items()\<close> iterate in it, and the list handlers
  depend on it), so a dict is an association list whose keys are distinct.
\<close>

type_synonym ('k, 'v) dict = "('k \<times> 'v) list"

definition dict_get :: "('k, 'v) dict \<Rightarrow> 'k \<Rightarrow> 'v option" where
  "dict_get d k = map_of d k"

text \<open>\<open>d[k] = v\<close>: an existing key keeps its place, a new key goes to the end.\<close>

fun dict_set :: "('k, 'v) dict \<Rightarrow> 'k \<Rightarrow> 'v \<Rightarrow> ('k, 'v) dict" where
  "dict_set [] k v = [(k, v)]"
| "dict_set ((k', v') # d) k v = (if k' = k then (k, v) # d else (k', v') # dict_set d k v)"

text \<open>\<open>d.pop(k)\<close>, the dict it leaves.\<close>

definition dict_pop :: "('k, 'v) dict \<Rightarrow> 'k \<Rightarrow> ('k, 'v) dict" where
  "dict_pop d k = filter (\<lambda>kv. fst kv \<noteq> k) d"

definition dict_values :: "('k, 'v) dict \<Rightarrow> 'v list" where
  "dict_values d = map snd d"

definition dict_keys :: "('k, 'v) dict \<Rightarrow> 'k list" where
  "dict_keys d = map fst d"

section \<open>The records and the store\<close>

text \<open>
  A task is the dict \<open>{'id', 'title', 'description', 'created_at'}\<close> that \<open>create_task\<close>
  builds; a comment is the dict \<open>{'id', 'task_id', 'content', 'author', 'created_at',
  'updated_at'}\<close> of \<open>create_comment\<close>. The id and the timestamps are strings
  (\<open>str(uuid.uuid4())\<close>, \<open>isoformat()\<close>) and \<open>task_id\<close> is the string of the URL path.
  \<open>title\<close>, \<open>description\<close>, \<open>content\<close> and \<open>author\<close> are the JSON value the payload held,
  stored as it came.
\<close>

record task =
  t_id :: string
  t_title :: json
  t_description :: json
  t_created_at :: string

record comment =
  c_id :: string
  c_task_id :: string
  c_content :: json
  c_author :: json
  c_created_at :: string
  c_updated_at :: string

text \<open>
  The file \<open>data.json\<close>. Its text is what \<open>json.dump\<close> writes and \<open>json.load\<close> reads; the
  model keeps the JSON document that text denotes. \<open>Unreadable\<close> is a file that exists and
  cannot be opened or parsed (also the truncated file a failed write leaves).
\<close>

datatype file_content = Document json | Unreadable

text \<open>What the file system does to the next \<open>open(DATA_FILE, 'w')\<close> and \<open>json.dump\<close>.\<close>

datatype disk = DiskOk | OpenFails | WriteFails

record store =
  tasks :: "(string, task) dict"
  comments :: "(string, comment) dict"
  data_file :: "file_content option"
  disk :: disk

type_synonym response = "nat \<times> json"

definition json_of_task :: "task \<Rightarrow> json" where
  "json_of_task t = JObj
     [(''id'', JStr (t_id t)),
      (''title'', t_title t),
      (''description'', t_description t),
      (''created_at'', JStr (t_created_at t))]"

definition json_of_comment :: "comment \<Rightarrow> json" where
  "json_of_comment c = JObj
     [(''id'', JStr (c_id c)),
      (''task_id'', JStr (c_task_id c)),
      (''content'', c_content c),
      (''author'', c_author c),
      (''created_at'', JStr (c_created_at c)),
      (''updated_at'', JStr (c_updated_at c))]"

definition json_of_tasks :: "(string, task) dict \<Rightarrow> json" where
  "json_of_tasks d = JObj (map (\<lambda>kv. (fst kv, json_of_task (snd kv))) d)"

definition json_of_comments :: "(string, comment) dict \<Rightarrow> json" where
  "json_of_comments d = JObj (map (\<lambda>kv. (fst kv, json_of_comment (snd kv))) d)"

definition error_body :: "string \<Rightarrow> json" where
  "error_body msg = JObj [(''error'', JStr msg)]"


section \<open>Persistence\<close>

text \<open>
  \<open>save_data\<close> writes \<open>{'tasks': tasks, 'comments': comments}\<close> over the file. Its
  \<open>except Exception\<close> swallows a failure: when the file cannot be opened it stays as it
  was, and when the write breaks off the file holds a truncated text.
\<close>

definition save_data :: "store \<Rightarrow> store" where
  "save_data st =
     (case disk st of
        DiskOk \<Rightarrow>
          st\<lparr>data_file := Some (Document (JObj
               [(''tasks'', json_of_tasks (tasks st)),
                (''comments'', json_of_comments (comments st))]))\<rparr>
      | OpenFails \<Rightarrow> st
      | WriteFails \<Rightarrow> st\<lparr>data_file := Some Unreadable\<rparr>)"

text \<open>
  In Python the loaded dicts are the parsed JSON objects themselves. The store of this
  theory holds records, so loading reads each object back as the record it was written
  from: an object with exactly the keys of \<open>json_of_task\<close> (\<open>json_of_comment\<close>), in
  that order, with strings for the id and the timestamps.
\<close>

definition task_of_json :: "json \<Rightarrow> task option" where
  "task_of_json j =
     (case j of
        JObj [(k1, JStr i), (k2, ti), (k3, de), (k4, JStr cr)] \<Rightarrow>
          if k1 = ''id'' \<and> k2 = ''title'' \<and> k3 = ''description'' \<and> k4 = ''created_at''
          then Some \<lparr>t_id = i, t_title = ti, t_description = de, t_created_at = cr\<rparr>
          else None
      | _ \<Rightarrow> None)"

definition comment_of_json :: "json \<Rightarrow> comment option" where
  "comment_of_json j =
     (case j of
        JObj [(k1, JStr i), (k2, JStr ta), (k3, co), (k4, au), (k5, JStr cr), (k6, JStr up)] \<Rightarrow>
          if k1 = ''id'' \<and> k2 = ''task_id'' \<and> k3 = ''content'' \<and> k4 = ''author''
             \<and> k5 = ''created_at'' \<and> k6 = ''updated_at''
          then Some \<lparr>c_id = i, c_task_id = ta, c_content = co, c_author = au,
                      c_created_at = cr, c_updated_at = up\<rparr>
          else None
      | _ \<Rightarrow> None)"

fun entries_of_json :: "(json \<Rightarrow> 'v option) \<Rightarrow> (string \<times> json) list \<Rightarrow> (string, 'v) dict option" where
  "entries_of_json dec [] = Some []"
| "entries_of_json dec ((k, j) # kvs) =
     (case dec j of
        None \<Rightarrow> None
      | Some v \<Rightarrow> (case entries_of_json dec kvs of None \<Rightarrow> None | Some d \<Rightarrow> Some ((k, v) # d)))"

definition tasks_of_json :: "json \<Rightarrow> (string, task) dict option" where
  "tasks_of_json j = (case j of JObj kvs \<Rightarrow> entries_of_json task_of_json kvs | _ \<Rightarrow> None)"

definition comments_of_json :: "json \<Rightarrow> (string, comment) dict option" where
  "comments_of_json j = (case j of JObj kvs \<Rightarrow> entries_of_json comment_of_json kvs | _ \<Rightarrow> None)"

definition cleared :: "store \<Rightarrow> store" where
  "cleared st = st\<lparr>tasks := [], comments := []\<rparr>"

text \<open>
  \<open>load_data\<close>: no file leaves the dicts as they are; any exception (the file does not
  parse, the document has no \<open>get\<close>, \<open>len\<close> of a loaded value fails in the \<open>print\<close>)
  resets both dicts to empty. The result is \<open>None\<close> when the document loads in Python
  but its entries are not task and comment records, which the store of this theory
  cannot hold.
\<close>

definition load_data :: "store \<Rightarrow> store option" where
  "load_data st =
     (case data_file st of
        None \<Rightarrow> Some st
      | Some Unreadable \<Rightarrow> Some (cleared st)
      | Some (Document data) \<Rightarrow>
          (case py_get data ''tasks'' (JObj []) of
             Inl e \<Rightarrow> Some (cleared st)
           | Inr tj \<Rightarrow>
               (case py_get data ''comments'' (JObj []) of
                  Inl e \<Rightarrow> Some (cleared st)
                | Inr cj \<Rightarrow>
                    (case py_len tj of
                       Inl e \<Rightarrow> Some (cleared st)
                     | Inr n \<Rightarrow>
                         (case py_len cj of
                            Inl e \<Rightarrow> Some (cleared st)
                          | Inr m \<Rightarrow>
                              (case tasks_of_json tj of
                                 None \<Rightarrow> None
                               | Some ts \<Rightarrow>
                                   (case comments_of_json cj of
                                      None \<Rightarrow> None
                                    | Some cs \<Rightarrow> Some (st\<lparr>tasks := ts, comments := cs\<rparr>))))))))"

section \<open>The handlers\<close>

text \<open>
  A handler takes the URL parameter, the parsed body, what the environment hands it
  (the fresh \<open>uuid4\<close>, each reading of the clock) and the store; it returns the response
  (status and body) or the exception that escapes, and the store it leaves.
\<close>

type_synonym outcome = "(py_error + response) \<times> store"

text \<open>One block of a handler: it raises, returns a response early, or goes on.\<close>

datatype 'a step = Raise py_error | Return response | Continue 'a

definition get_comments_by_task :: "string \<Rightarrow> store \<Rightarrow> comment list" where
  "get_comments_by_task task_id st =
     filter (\<lambda>comment. c_task_id comment = task_id) (dict_values (comments st))"

definition create_task :: "json \<Rightarrow> string \<Rightarrow> string \<Rightarrow> store \<Rightarrow> outcome" where
  "create_task data task_id now st =
     (if \<not> py_truthy data then (Inr (400, error_body ''Title is required''), st)
      else case py_in ''title'' data of
        Inl e \<Rightarrow> (Inl e, st)
      | Inr False \<Rightarrow> (Inr (400, error_body ''Title is required''), st)
      | Inr True \<Rightarrow>
          (case py_getitem data ''title'' of
             Inl e \<Rightarrow> (Inl e, st)
           | Inr title \<Rightarrow>
               (case py_get data ''description'' (JStr '''') of
                  Inl e \<Rightarrow> (Inl e, st)
                | Inr description \<Rightarrow>
                    (let task = \<lparr>t_id = task_id, t_title = title,
                                 t_description = description, t_created_at = now\<rparr>
                     in (Inr (201, json_of_task task),
                         save_data (st\<lparr>tasks := dict_set (tasks st) task_id task\<rparr>))))))"

definition get_task :: "string \<Rightarrow> store \<Rightarrow> outcome" where
  "get_task task_id st =
     (case dict_get (tasks st) task_id of
        None \<Rightarrow> (Inr (404, error_body ''Task not found''), st)
      | Some task \<Rightarrow> (Inr (200, json_of_task task), st))"

text \<open>The block \<open>if 'title' in data: ...\<close> of \<open>update_task\<close>.\<close>

definition update_task_title :: "json \<Rightarrow> task \<Rightarrow> task step" where
  "update_task_title data task =
     (case py_in ''title'' data of
        Inl e \<Rightarrow> Raise e
      | Inr False \<Rightarrow> Continue task
      | Inr True \<Rightarrow>
          (case py_getitem data ''title'' of
             Inl e \<Rightarrow> Raise e
           | Inr title \<Rightarrow>
               (case py_strip title of
                  Inl e \<Rightarrow> Raise e
                | Inr s \<Rightarrow>
                    if s = [] then Return (400, error_body ''Title cannot be empty'')
                    else Continue (task\<lparr>t_title := title\<rparr>))))"

text \<open>The block \<open>if 'description' in data: ...\<close> of \<open>update_task\<close>.\<close>

definition update_task_description :: "json \<Rightarrow> task \<Rightarrow> task step" where
  "update_task_description data task =
     (case py_in ''description'' data of
        Inl e \<Rightarrow> Raise e
      | Inr False \<Rightarrow> Continue task
      | Inr True \<Rightarrow>
          (case py_getitem data ''description'' of
             Inl e \<Rightarrow> Raise e
           | Inr description \<Rightarrow> Continue (task\<lparr>t_description := description\<rparr>)))"

text \<open>
  \<open>task\<close> is the dict stored in \<open>tasks\<close>, so assigning to its keys changes the stored
  record at once: a title already assigned stays when a later block raises.
\<close>

definition update_task :: "string \<Rightarrow> json \<Rightarrow> store \<Rightarrow> outcome" where
  "update_task task_id data st =
     (case dict_get (tasks st) task_id of
        None \<Rightarrow> (Inr (404, error_body ''Task not found''), st)
      | Some task \<Rightarrow>
          (if \<not> py_truthy data then (Inr (400, error_body ''No data provided''), st)
           else
             (case update_task_title data task of
                Raise e \<Rightarrow> (Inl e, st)
              | Return r \<Rightarrow> (Inr r, st)
              | Continue task1 \<Rightarrow>
                  (case update_task_description data task1 of
                     Raise e \<Rightarrow> (Inl e, st\<lparr>tasks := dict_set (tasks st) task_id task1\<rparr>)
                   | Return r \<Rightarrow> (Inr r, st\<lparr>tasks := dict_set (tasks st) task_id task1\<rparr>)
                   | Continue task2 \<Rightarrow>
                       (Inr (200, json_of_task task2),
                        save_data (st\<lparr>tasks := dict_set (tasks st) task_id task2\<rparr>))))))"

text \<open>
  \<open>delete_task\<close>: pops the task, collects the ids of the comments of that task and pops
  each of them, in the order of the dict.
\<close>

definition delete_task :: "string \<Rightarrow> store \<Rightarrow> outcome" where
  "delete_task task_id st =
     (case dict_get (tasks st) task_id of
        None \<Rightarrow> (Inr (404, error_body ''Task not found''), st)
      | Some deleted_task \<Rightarrow>
          (let task_comment_ids =
                 map fst (filter (\<lambda>kv. c_task_id (snd kv) = task_id) (comments st))
           in (Inr (200, JObj [(''message'', JStr ''Task deleted successfully''),
                               (''task'', json_of_task deleted_task)]),
               save_data (st\<lparr>tasks := dict_pop (tasks st) task_id,
                              comments := foldl dict_pop (comments st) task_comment_ids\<rparr>))))"

text \<open>
  \<open>create_comment\<close> reads the clock twice, once for \<open>created_at\<close> (\<open>now1\<close>) and once
  for \<open>updated_at\<close> (\<open>now2\<close>).
\<close>

definition create_comment :: "string \<Rightarrow> json \<Rightarrow> string \<Rightarrow> string \<Rightarrow> string \<Rightarrow> store \<Rightarrow> outcome" where
  "create_comment task_id data comment_id now1 now2 st =
     (if \<not> py_truthy data then (Inr (400, error_body ''Content is required''), st)
      else
        (case py_in ''content'' data of
           Inl e \<Rightarrow> (Inl e, st)
         | Inr False \<Rightarrow> (Inr (400, error_body ''Content is required''), st)
         | Inr True \<Rightarrow>
             (case py_getitem data ''content'' of
                Inl e \<Rightarrow> (Inl e, st)
              | Inr content \<Rightarrow>
                  (case py_strip content of
                     Inl e \<Rightarrow> (Inl e, st)
                   | Inr s \<Rightarrow>
                       (if s = [] then (Inr (400, error_body ''Content cannot be empty''), st)
                        else
                          (case py_get data ''author'' (JStr ''Anonymous'') of
                             Inl e \<Rightarrow> (Inl e, st)
                           | Inr author \<Rightarrow>
                               (let comment = \<lparr>c_id = comment_id, c_task_id = task_id,
                                               c_content = content, c_author = author,
                                               c_created_at = now1, c_updated_at = now2\<rparr>
                                in (Inr (201, json_of_comment comment),
                                    save_data (st\<lparr>comments :=
                                      dict_set (comments st) comment_id comment\<rparr>)))))))))"

text \<open>
  \<open>list.sort(key=..., reverse=True)\<close>: a stable sort into descending order of the key.
  CPython reverses the list, sorts it stably into ascending order and reverses the result;
  \<open>sort_key\<close> is the stable (insertion) sort of the library.
\<close>

definition py_sort_reverse :: "('a \<Rightarrow> 'k::linorder) \<Rightarrow> 'a list \<Rightarrow> 'a list" where
  "py_sort_reverse key xs = rev (sort_key key (rev xs))"

definition get_comments :: "string \<Rightarrow> store \<Rightarrow> outcome" where
  "get_comments task_id st =
     (let task_comments = py_sort_reverse c_created_at (get_comments_by_task task_id st)
      in (Inr (200, JObj [(''task_id'', JStr task_id),
                          (''comments'', JArr (map json_of_comment task_comments)),
                          (''count'', JNum (int (length task_comments)))]),
          st))"

definition get_comment :: "string \<Rightarrow> store \<Rightarrow> outcome" where
  "get_comment comment_id st =
     (case dict_get (comments st) comment_id of
        None \<Rightarrow> (Inr (404, error_body ''Comment not found''), st)
      | Some comment \<Rightarrow> (Inr (200, json_of_comment comment), st))"

text \<open>The block \<open>if 'content' in data: ...\<close> of \<open>update_comment\<close>.\<close>

definition update_comment_content :: "json \<Rightarrow> comment \<Rightarrow> comment step" where
  "update_comment_content data comment =
     (case py_in ''content'' data of
        Inl e \<Rightarrow> Raise e
      | Inr False \<Rightarrow> Continue comment
      | Inr True \<Rightarrow>
          (case py_getitem data ''content'' of
             Inl e \<Rightarrow> Raise e
           | Inr content \<Rightarrow>
               (case py_strip content of
                  Inl e \<Rightarrow> Raise e
                | Inr s \<Rightarrow>
                    if s = [] then Return (400, error_body ''Content cannot be empty'')
                    else Continue (comment\<lparr>c_content := content\<rparr>))))"

text \<open>The block \<open>if 'author' in data: ...\<close> of \<open>update_comment\<close>.\<close>

definition update_comment_author :: "json \<Rightarrow> comment \<Rightarrow> comment step" where
  "update_comment_author data comment =
     (case py_in ''author'' data of
        Inl e \<Rightarrow> Raise e
      | Inr False \<Rightarrow> Continue comment
      | Inr True \<Rightarrow>
          (case py_getitem data ''author'' of
             Inl e \<Rightarrow> Raise e
           | Inr author \<Rightarrow> Continue (comment\<lparr>c_author := author\<rparr>)))"

definition update_comment :: "string \<Rightarrow> json \<Rightarrow> string \<Rightarrow> store \<Rightarrow> outcome" where
  "update_comment comment_id data now st =
     (case dict_get (comments st) comment_id of
        None \<Rightarrow> (Inr (404, error_body ''Comment not found''), st)
      | Some comment \<Rightarrow>
          (if \<not> py_truthy data then (Inr (400, error_body ''No data provided''), st)
           else
             (case update_comment_content data comment of
                Raise e \<Rightarrow> (Inl e, st)
              | Return r \<Rightarrow> (Inr r, st)
              | Continue comment1 \<Rightarrow>
                  (case update_comment_author data comment1 of
                     Raise e \<Rightarrow> (Inl e, st\<lparr>comments := dict_set (comments st) comment_id comment1\<rparr>)
                   | Return r \<Rightarrow> (Inr r, st\<lparr>comments := dict_set (comments st) comment_id comment1\<rparr>)
                   | Continue comment2 \<Rightarrow>
                       (let comment3 = comment2\<lparr>c_updated_at := now\<rparr>
                        in (Inr (200, json_of_comment comment3),
                            save_data (st\<lparr>comments :=
                              dict_set (comments st) comment_id comment3\<rparr>)))))))"

definition delete_comment :: "string \<Rightarrow> store \<Rightarrow> outcome" where
  "delete_comment comment_id st =
     (case dict_get (comments st) comment_id of
        None \<Rightarrow> (Inr (404, error_body ''Comment not found''), st)
      | Some deleted_comment \<Rightarrow>
          (Inr (200, JObj [(''message'', JStr ''Comment deleted successfully''),
                           (''comment'', json_of_comment deleted_comment)]),
           save_data (st\<lparr>comments := dict_pop (comments st) comment_id\<rparr>)))"

section \<open>The invariant of the store\<close>

text \<open>A Python dict holds each key once.\<close>

definition wf_store :: "store \<Rightarrow> bool" where
  "wf_store st = (distinct (dict_keys (tasks st)) \<and> distinct (dict_keys (comments st)))"

section \<open>Example stores\<close>

text \<open>The store of a fresh process with no \<open>data.json\<close>: both dicts empty.\<close>

definition empty_store :: store where
  "empty_store = \<lparr>tasks = [], comments = [], data_file = None, disk = DiskOk\<rparr>"

definition demo_task :: task where
  "demo_task = \<lparr>t_id = ''t1'', t_title = JStr ''Write report'', t_description = JStr '''',
                  t_created_at = ''2024-05-01T10:00:00+00:00''\<rparr>"

definition demo_comment :: "string \<Rightarrow> string \<Rightarrow> string \<Rightarrow> comment" where
  "demo_comment cid tid at = \<lparr>c_id = cid, c_task_id = tid, c_content = JStr ''note'',
       c_author = JStr ''Anonymous'', c_created_at = at, c_updated_at = at\<rparr>"

text \<open>One task \<open>t1\<close> with the comments \<open>c1\<close> and \<open>c3\<close>; \<open>c2\<close> belongs to a task \<open>t2\<close>
  that is not in the store.\<close>

definition demo_store :: store where
  "demo_store = \<lparr>tasks = [(''t1'', demo_task)],
     comments = [(''c1'', demo_comment ''c1'' ''t1'' ''2024-05-01T10:00:01+00:00''),
                 (''c2'', demo_comment ''c2'' ''t2'' ''2024-05-01T10:00:02+00:00''),
                 (''c3'', demo_comment ''c3'' ''t1'' ''2024-05-01T10:00:03+00:00'')],
     data_file = None, disk = DiskOk\<rparr>"

section \<open>Facts about dicts and saving\<close>

lemma dict_get_set_same: "dict_get (dict_set d k v) k = Some v"
  by (induction d) (auto simp: dict_get_def)

lemma dict_get_set_other: "k' \<noteq> k \<Longrightarrow> dict_get (dict_set d k v) k' = dict_get d k'"
  by (induction d) (auto simp: dict_get_def)

lemma dict_get_pop: "dict_get (dict_pop d k) k' = (if k' = k then None else dict_get d k')"
  by (induction d) (auto simp: dict_get_def dict_pop_def)

lemma dict_keys_set:
  "dict_keys (dict_set d k v) = (if k \<in> set (dict_keys d) then dict_keys d else dict_keys d @ [k])"
  by (induction d) (force simp: dict_keys_def)+

lemma distinct_dict_set: "distinct (dict_keys d) \<Longrightarrow> distinct (dict_keys (dict_set d k v))"
  by (simp add: dict_keys_set)

lemma distinct_dict_pop: "distinct (dict_keys d) \<Longrightarrow> distinct (dict_keys (dict_pop d k))"
  by (simp add: dict_keys_def dict_pop_def distinct_map_filter)

text \<open>Popping a list of keys one after the other leaves the entries of the other keys.\<close>

lemma foldl_dict_pop: "foldl dict_pop d ks = filter (\<lambda>kv. fst kv \<notin> set ks) d"
  by (induction ks arbitrary: d) (auto simp: dict_pop_def intro: filter_cong)

text \<open>With distinct keys, popping the keys of the entries that satisfy \<open>P\<close> removes
  exactly those entries.\<close>

lemma pop_matching_keys:
  assumes "distinct (dict_keys d)"
  shows "filter (\<lambda>kv. fst kv \<notin> set (map fst (filter P d))) d = filter (\<lambda>kv. \<not> P kv) d"
proof (rule filter_cong[OF refl])
  fix kv assume kv: "kv \<in> set d"
  have "fst kv \<in> set (map fst (filter P d)) \<longleftrightarrow> P kv"
  proof
    assume "fst kv \<in> set (map fst (filter P d))"
    then obtain kv' where kv': "kv' \<in> set d" "P kv'" "fst kv' = fst kv" by auto
    from assms kv kv' have "kv' = kv"
      by (metis dict_keys_def eq_key_imp_eq_value prod.collapse)
    with kv' show "P kv" by simp
  next
    assume "P kv" with kv show "fst kv \<in> set (map fst (filter P d))" by auto
  qed
  then show "(fst kv \<notin> set (map fst (filter P d))) = (\<not> P kv)" by simp
qed

text \<open>Saving touches the file only.\<close>

lemma tasks_save_data: "tasks (save_data st) = tasks st"
  by (simp add: save_data_def split: disk.splits)

lemma comments_save_data: "comments (save_data st) = comments st"
  by (simp add: save_data_def split: disk.splits)

text \<open>The handlers keep the keys of both dicts distinct, from the empty store on.\<close>

lemma wf_store_empty: "wf_store empty_store"
  by (simp add: wf_store_def empty_store_def dict_keys_def)

lemma distinct_foldl_dict_pop:
  "distinct (dict_keys d) \<Longrightarrow> distinct (dict_keys (foldl dict_pop d ks))"
  by (simp add: foldl_dict_pop dict_keys_def distinct_map_filter)

lemma wf_store_create_task: "wf_store st \<Longrightarrow> wf_store (snd (create_task data task_id now st))"
  by (auto simp: create_task_def Let_def tasks_save_data comments_save_data
        simp: wf_store_def distinct_dict_set split: sum.splits bool.splits)

lemma wf_store_update_task: "wf_store st \<Longrightarrow> wf_store (snd (update_task task_id data st))"
  by (auto simp: update_task_def tasks_save_data comments_save_data
        simp: wf_store_def distinct_dict_set split: option.splits step.splits)

lemma wf_store_delete_task: "wf_store st \<Longrightarrow> wf_store (snd (delete_task task_id st))"
  by (auto simp: delete_task_def Let_def tasks_save_data comments_save_data
        simp: wf_store_def distinct_dict_pop distinct_foldl_dict_pop split: option.splits)

lemma wf_store_create_comment:
  "wf_store st \<Longrightarrow> wf_store (snd (create_comment task_id data comment_id now1 now2 st))"
  by (auto simp: create_comment_def Let_def tasks_save_data comments_save_data
        simp: wf_store_def distinct_dict_set split: sum.splits bool.splits)

lemma wf_store_update_comment:
  "wf_store st \<Longrightarrow> wf_store (snd (update_comment comment_id data now st))"
  by (auto simp: update_comment_def Let_def tasks_save_data comments_save_data
        simp: wf_store_def distinct_dict_set split: option.splits step.splits)

lemma wf_store_delete_comment: "wf_store st \<Longrightarrow> wf_store (snd (delete_comment comment_id st))"
  by (auto simp: delete_comment_def tasks_save_data comments_save_data
        simp: wf_store_def distinct_dict_pop split: option.splits)

section \<open>Deleting a task\<close>

text \<open>
  Claim C1. When \<open>task_id\<close> is a key of \<open>tasks\<close>, \<open>delete_task\<close> answers 200 with the
  confirmation message and the deleted task record; afterwards \<open>task_id\<close> is no key of
  \<open>tasks\<close> and every other key holds what it held; \<open>comments\<close> has lost exactly the
  entries whose \<open>task_id\<close> is the deleted id, and the entries of other tasks stand as they
  were, in their order. (A dict has distinct keys.)
\<close>

theorem delete_task_cascades:
  assumes "dict_get (tasks st) task_id = Some t"
    and "distinct (dict_keys (comments st))"
  shows "fst (delete_task task_id st) =
           Inr (200, JObj [(''message'', JStr ''Task deleted successfully''),
                           (''task'', json_of_task t)])
       \<and> (\<forall>k. dict_get (tasks (snd (delete_task task_id st))) k =
                (if k = task_id then None else dict_get (tasks st) k))
       \<and> comments (snd (delete_task task_id st)) =
           filter (\<lambda>kv. c_task_id (snd kv) \<noteq> task_id) (comments st)"
  using assms
  by (simp add: delete_task_def tasks_save_data comments_save_data dict_get_pop
        foldl_dict_pop pop_matching_keys del: set_map)

theorem delete_task_cascades_witness:
  "dict_get (tasks demo_store) ''t1'' = Some demo_task
   \<and> distinct (dict_keys (comments demo_store))
   \<and> fst (delete_task ''t1'' demo_store) =
        Inr (200, JObj [(''message'', JStr ''Task deleted successfully''),
                        (''task'', json_of_task demo_task)])
   \<and> dict_get (tasks (snd (delete_task ''t1'' demo_store))) ''t1'' = None
   \<and> comments (snd (delete_task ''t1'' demo_store)) =
        [(''c2'', demo_comment ''c2'' ''t2'' ''2024-05-01T10:00:02+00:00'')]"
proof -
  have h1: "dict_get (tasks demo_store) ''t1'' = Some demo_task"
    by (simp add: demo_store_def dict_get_def)
  have h2: "distinct (dict_keys (comments demo_store))"
    by (simp add: demo_store_def dict_keys_def)
  have c: "filter (\<lambda>kv. c_task_id (snd kv) \<noteq> ''t1'') (comments demo_store) =
        [(''c2'', demo_comment ''c2'' ''t2'' ''2024-05-01T10:00:02+00:00'')]"
    by (simp add: demo_store_def demo_comment_def)
  from delete_task_cascades [OF h1 h2] h1 h2 c show ?thesis by simp
qed

section \<open>Requests for an id that is not in the store\<close>

text \<open>
  Claim C8. When the id is no key of the mapping it is looked up in, the get, update and
  delete handlers of tasks answer 404 with \<open>Task not found\<close> and those of comments answer
  404 with \<open>Comment not found\<close>, whatever the body of the request; the handler returns
  the store it was given, so both mappings (and the file) are as they were.
\<close>

theorem not_found_is_404_and_no_mutation:
  "(dict_get (tasks st) task_id = None \<longrightarrow>
      get_task task_id st = (Inr (404, error_body ''Task not found''), st)
    \<and> update_task task_id data st = (Inr (404, error_body ''Task not found''), st)
    \<and> delete_task task_id st = (Inr (404, error_body ''Task not found''), st))
 \<and> (dict_get (comments st) comment_id = None \<longrightarrow>
      get_comment comment_id st = (Inr (404, error_body ''Comment not found''), st)
    \<and> update_comment comment_id data now st = (Inr (404, error_body ''Comment not found''), st)
    \<and> delete_comment comment_id st = (Inr (404, error_body ''Comment not found''), st))"
  by (simp add: get_task_def update_task_def delete_task_def
        get_comment_def update_comment_def delete_comment_def)

theorem not_found_is_404_and_no_mutation_witness:
  "dict_get (tasks demo_store) ''t9'' = None
   \<and> get_task ''t9'' demo_store = (Inr (404, error_body ''Task not found''), demo_store)
   \<and> update_task ''t9'' (JObj [(''title'', JStr ''New'')]) demo_store =
        (Inr (404, error_body ''Task not found''), demo_store)
   \<and> delete_task ''t9'' demo_store = (Inr (404, error_body ''Task not found''), demo_store)
   \<and> dict_get (comments demo_store) ''c9'' = None
   \<and> get_comment ''c9'' demo_store = (Inr (404, error_body ''Comment not found''), demo_store)
   \<and> update_comment ''c9'' (JObj [(''title'', JStr ''New'')]) ''2024-05-02T08:00:00+00:00'' demo_store =
        (Inr (404, error_body ''Comment not found''), demo_store)
   \<and> delete_comment ''c9'' demo_store = (Inr (404, error_body ''Comment not found''), demo_store)"
proof -
  have h1: "dict_get (tasks demo_store) ''t9'' = None"
    by (simp add: demo_store_def dict_get_def)
  have h2: "dict_get (comments demo_store) ''c9'' = None"
    by (simp add: demo_store_def dict_get_def)
  from not_found_is_404_and_no_mutation
         [of demo_store "''t9''" "JObj [(''title'', JStr ''New'')]" "''c9''" "''2024-05-02T08:00:00+00:00''"]
       h1 h2
  show ?thesis by simp
qed


section \<open>Updating the description of a task\<close>

text \<open>
  Claim C9. On an existing task, \<open>update_task\<close> with a body that holds the key
  \<open>description\<close> and nothing else answers 200 with the updated record; the stored
  description becomes the given value, whatever it is (the empty string too), and the
  title, the id and \<open>created_at\<close> of the stored task are what they were.
\<close>

theorem update_task_description_only:
  assumes "dict_get (tasks st) task_id = Some t"
  shows "fst (update_task task_id (JObj [(''description'', d)]) st) =
           Inr (200, json_of_task (t\<lparr>t_description := d\<rparr>))
       \<and> dict_get (tasks (snd (update_task task_id (JObj [(''description'', d)]) st))) task_id =
           Some (t\<lparr>t_description := d\<rparr>)
       \<and> map_option t_description
           (dict_get (tasks (snd (update_task task_id (JObj [(''description'', d)]) st))) task_id) =
           Some d
       \<and> map_option t_title
           (dict_get (tasks (snd (update_task task_id (JObj [(''description'', d)]) st))) task_id) =
           Some (t_title t)
       \<and> map_option t_id
           (dict_get (tasks (snd (update_task task_id (JObj [(''description'', d)]) st))) task_id) =
           Some (t_id t)
       \<and> map_option t_created_at
           (dict_get (tasks (snd (update_task task_id (JObj [(''description'', d)]) st))) task_id) =
           Some (t_created_at t)"
  using assms
  by (simp add: update_task_def update_task_title_def update_task_description_def
        tasks_save_data dict_get_set_same)

theorem update_task_description_only_witness:
  "dict_get (tasks demo_store) ''t1'' = Some demo_task
   \<and> fst (update_task ''t1'' (JObj [(''description'', JStr '''')]) demo_store) =
        Inr (200, json_of_task (demo_task\<lparr>t_description := JStr ''''\<rparr>))
   \<and> map_option t_description
        (dict_get (tasks (snd (update_task ''t1'' (JObj [(''description'', JStr '''')]) demo_store))) ''t1'') =
        Some (JStr '''')
   \<and> map_option t_title
        (dict_get (tasks (snd (update_task ''t1'' (JObj [(''description'', JStr '''')]) demo_store))) ''t1'') =
        Some (JStr ''Write report'')"
proof -
  have h: "dict_get (tasks demo_store) ''t1'' = Some demo_task"
    by (simp add: demo_store_def dict_get_def)
  from update_task_description_only [OF h, of "JStr ''''"] h
  show ?thesis by (simp add: demo_task_def)
qed

section \<open>Creating a comment\<close>

text \<open>
  Claim C4. When the body is an object whose \<open>content\<close> is a string that is not blank
  after \<open>strip()\<close>, \<open>create_comment\<close> answers 201 with the new comment and stores it
  under its id, with the \<open>task_id\<close> of the URL path. Nothing is assumed about \<open>tasks\<close>:
  the task need not exist.
\<close>

theorem create_comment_ignores_task_existence:
  assumes "map_of kvs ''content'' = Some (JStr s)"
    and "str_strip s \<noteq> []"
  shows "fst (create_comment task_id (JObj kvs) comment_id now1 now2 st) =
           Inr (201, json_of_comment
             \<lparr>c_id = comment_id, c_task_id = task_id, c_content = JStr s,
              c_author = (case map_of kvs ''author'' of None \<Rightarrow> JStr ''Anonymous'' | Some a \<Rightarrow> a),
              c_created_at = now1, c_updated_at = now2\<rparr>)
       \<and> dict_get (comments (snd (create_comment task_id (JObj kvs) comment_id now1 now2 st)))
           comment_id =
           Some \<lparr>c_id = comment_id, c_task_id = task_id, c_content = JStr s,
              c_author = (case map_of kvs ''author'' of None \<Rightarrow> JStr ''Anonymous'' | Some a \<Rightarrow> a),
              c_created_at = now1, c_updated_at = now2\<rparr>
       \<and> map_option c_task_id
           (dict_get (comments (snd (create_comment task_id (JObj kvs) comment_id now1 now2 st)))
              comment_id) = Some task_id"
proof -
  from assms(1) have ne: "kvs \<noteq> []" by auto
  from assms(1) have mem: "''content'' \<in> fst ` set kvs"
    by (metis map_of_eq_None_iff option.distinct(1))
  show ?thesis
    using assms ne mem
    by (simp add: create_comment_def Let_def comments_save_data dict_get_set_same split: option.splits)
qed

theorem create_comment_ignores_task_existence_witness:
  "map_of [(''content'', JStr ''Test comment'')] ''content'' = Some (JStr ''Test comment'')
   \<and> str_strip ''Test comment'' \<noteq> []
   \<and> dict_get (tasks empty_store) ''non-existent-task-id'' = None
   \<and> fst (create_comment ''non-existent-task-id'' (JObj [(''content'', JStr ''Test comment'')])
          ''c1'' ''2024-05-01T10:00:01+00:00'' ''2024-05-01T10:00:01+00:00'' empty_store) =
        Inr (201, JObj [(''id'', JStr ''c1''), (''task_id'', JStr ''non-existent-task-id''),
                        (''content'', JStr ''Test comment''), (''author'', JStr ''Anonymous''),
                        (''created_at'', JStr ''2024-05-01T10:00:01+00:00''),
                        (''updated_at'', JStr ''2024-05-01T10:00:01+00:00'')])
   \<and> map_option c_task_id
        (dict_get (comments (snd (create_comment ''non-existent-task-id''
           (JObj [(''content'', JStr ''Test comment'')])
           ''c1'' ''2024-05-01T10:00:01+00:00'' ''2024-05-01T10:00:01+00:00'' empty_store))) ''c1'') =
        Some ''non-existent-task-id''"
proof -
  have h1: "map_of [(''content'', JStr ''Test comment'')] ''content'' = Some (JStr ''Test comment'')"
    by simp
  have h2: "str_strip ''Test comment'' \<noteq> []"
    by (simp add: str_strip_def py_isspace_def)
  have h3: "dict_get (tasks empty_store) ''non-existent-task-id'' = None"
    by (simp add: empty_store_def dict_get_def)
  from create_comment_ignores_task_existence [OF h1 h2, of "''non-existent-task-id''" "''c1''"
         "''2024-05-01T10:00:01+00:00''" "''2024-05-01T10:00:01+00:00''" empty_store] h1 h2 h3
  show ?thesis by (simp add: json_of_comment_def)
qed

text \<open>
  Claim C7, as the code has it. \<open>create_comment\<close> calls \<open>datetime.now\<close> once for
  \<open>created_at\<close> and a second time for \<open>updated_at\<close>: after a successful creation the
  stored comment holds the first reading of the clock in \<open>created_at\<close> and the second in
  \<open>updated_at\<close>, so the two fields are equal exactly when the two readings are.
\<close>

theorem create_comment_reads_clock_twice:
  assumes "fst (create_comment task_id data comment_id now1 now2 st) = Inr (201, body)"
  shows "map_option c_created_at
           (dict_get (comments (snd (create_comment task_id data comment_id now1 now2 st))) comment_id) =
           Some now1
       \<and> map_option c_updated_at
           (dict_get (comments (snd (create_comment task_id data comment_id now1 now2 st))) comment_id) =
           Some now2
       \<and> ((map_option c_created_at
             (dict_get (comments (snd (create_comment task_id data comment_id now1 now2 st))) comment_id) =
            map_option c_updated_at
             (dict_get (comments (snd (create_comment task_id data comment_id now1 now2 st))) comment_id))
           = (now1 = now2))"
  using assms
  by (auto simp: create_comment_def Let_def comments_save_data dict_get_set_same
        split: if_splits sum.splits bool.splits)

theorem create_comment_reads_clock_twice_witness:
  "fst (create_comment ''t1'' (JObj [(''content'', JStr ''First comment'')]) ''c4''
          ''2024-05-01T10:00:04.000250+00:00'' ''2024-05-01T10:00:04.000250+00:00'' demo_store) =
     Inr (201, JObj [(''id'', JStr ''c4''), (''task_id'', JStr ''t1''),
                     (''content'', JStr ''First comment''), (''author'', JStr ''Anonymous''),
                     (''created_at'', JStr ''2024-05-01T10:00:04.000250+00:00''),
                     (''updated_at'', JStr ''2024-05-01T10:00:04.000250+00:00'')])
   \<and> map_option c_created_at
        (dict_get (comments (snd (create_comment ''t1'' (JObj [(''content'', JStr ''First comment'')]) ''c4''
          ''2024-05-01T10:00:04.000250+00:00'' ''2024-05-01T10:00:04.000250+00:00'' demo_store))) ''c4'') =
        Some ''2024-05-01T10:00:04.000250+00:00''
   \<and> map_option c_updated_at
        (dict_get (comments (snd (create_comment ''t1'' (JObj [(''content'', JStr ''First comment'')]) ''c4''
          ''2024-05-01T10:00:04.000250+00:00'' ''2024-05-01T10:00:04.000250+00:00'' demo_store))) ''c4'') =
        Some ''2024-05-01T10:00:04.000250+00:00''"
proof -
  have h: "fst (create_comment ''t1'' (JObj [(''content'', JStr ''First comment'')]) ''c4''
          ''2024-05-01T10:00:04.000250+00:00'' ''2024-05-01T10:00:04.000250+00:00'' demo_store) =
     Inr (201, JObj [(''id'', JStr ''c4''), (''task_id'', JStr ''t1''),
                     (''content'', JStr ''First comment''), (''author'', JStr ''Anonymous''),
                     (''created_at'', JStr ''2024-05-01T10:00:04.000250+00:00''),
                     (''updated_at'', JStr ''2024-05-01T10:00:04.000250+00:00'')])"
    by (simp add: create_comment_def Let_def str_strip_def py_isspace_def json_of_comment_def)
  from create_comment_reads_clock_twice [OF h] h show ?thesis by simp
qed

text \<open>
  Two readings one microsecond apart: the creation succeeds and the stored
  \<open>created_at\<close> and \<open>updated_at\<close> differ.
\<close>

theorem create_comment_timestamps_differ:
  "fst (create_comment ''t1'' (JObj [(''content'', JStr ''First comment'')]) ''c4''
          ''2024-05-01T10:00:04.000250+00:00'' ''2024-05-01T10:00:04.000251+00:00'' demo_store) =
     Inr (201, JObj [(''id'', JStr ''c4''), (''task_id'', JStr ''t1''),
                     (''content'', JStr ''First comment''), (''author'', JStr ''Anonymous''),
                     (''created_at'', JStr ''2024-05-01T10:00:04.000250+00:00''),
                     (''updated_at'', JStr ''2024-05-01T10:00:04.000251+00:00'')])
   \<and> map_option c_created_at
        (dict_get (comments (snd (create_comment ''t1'' (JObj [(''content'', JStr ''First comment'')]) ''c4''
          ''2024-05-01T10:00:04.000250+00:00'' ''2024-05-01T10:00:04.000251+00:00'' demo_store))) ''c4'')
     \<noteq>
       map_option c_updated_at
        (dict_get (comments (snd (create_comment ''t1'' (JObj [(''content'', JStr ''First comment'')]) ''c4''
          ''2024-05-01T10:00:04.000250+00:00'' ''2024-05-01T10:00:04.000251+00:00'' demo_store))) ''c4'')"
  by (simp add: create_comment_def Let_def str_strip_def py_isspace_def json_of_comment_def
        comments_save_data dict_get_set_same)

section \<open>Creating a task with a blank title\<close>

text \<open>
  Claim C2 does not hold of \<open>create_task\<close>: it tests only that the key \<open>title\<close> is
  there. With the body \<open>{"title": "   "}\<close>, whose title is blank after \<open>strip()\<close>, it
  answers 201 and stores the task, where \<open>update_task\<close> answers the same body with 400
  and \<open>Title cannot be empty\<close>.
\<close>

theorem create_task_accepts_blank_title:
  "str_strip ''   '' = []
   \<and> fst (create_task (JObj [(''title'', JStr ''   '')]) ''t1'' ''2024-05-01T10:00:00+00:00'' empty_store) =
       Inr (201, JObj [(''id'', JStr ''t1''), (''title'', JStr ''   ''), (''description'', JStr ''''),
                       (''created_at'', JStr ''2024-05-01T10:00:00+00:00'')])
   \<and> tasks (snd (create_task (JObj [(''title'', JStr ''   '')]) ''t1'' ''2024-05-01T10:00:00+00:00'' empty_store)) =
       [(''t1'', \<lparr>t_id = ''t1'', t_title = JStr ''   '', t_description = JStr '''',
                  t_created_at = ''2024-05-01T10:00:00+00:00''\<rparr>)]
   \<and> fst (update_task ''t1'' (JObj [(''title'', JStr ''   '')]) demo_store) =
       Inr (400, error_body ''Title cannot be empty'')"
  by (simp add: create_task_def Let_def str_strip_def py_isspace_def json_of_task_def
        tasks_save_data empty_store_def demo_store_def update_task_def update_task_title_def
        dict_get_def)

section \<open>Updating a comment\<close>

text \<open>
  Claim C6. On an existing comment, \<open>update_comment\<close> answers every non-empty body that
  passes the checks with 200 and stores \<open>updated_at\<close> as the reading of the clock:
  \<^item> a non-empty object whose \<open>content\<close>, when the key is there, is a string that is not
    blank after \<open>strip()\<close>: the content and the author are replaced by the values of the
    keys that are there and kept otherwise;
  \<^item> in particular a non-empty object with neither \<open>content\<close> nor \<open>author\<close> among its
    keys: content and author are what they were;
  \<^item> a non-empty list without the elements \<open>"content"\<close> and \<open>"author"\<close>, and a non-empty
    string without these substrings, for which both \<open>in\<close> tests are false.
  Conversely, whenever the answer is 200, whatever the body, the stored comment has the
  new \<open>updated_at\<close> and is the record of the response.
\<close>

theorem update_comment_refreshes_updated_at:
  assumes "dict_get (comments st) comment_id = Some c"
  shows "(kvs \<noteq> []
          \<and> (map_of kvs ''content'' = None
               \<or> (\<exists>s. map_of kvs ''content'' = Some (JStr s) \<and> str_strip s \<noteq> [])) \<longrightarrow>
            fst (update_comment comment_id (JObj kvs) now st) =
              Inr (200, json_of_comment
                (c\<lparr>c_content := (case map_of kvs ''content'' of None \<Rightarrow> c_content c | Some v \<Rightarrow> v),
                   c_author := (case map_of kvs ''author'' of None \<Rightarrow> c_author c | Some a \<Rightarrow> a),
                   c_updated_at := now\<rparr>))
          \<and> dict_get (comments (snd (update_comment comment_id (JObj kvs) now st))) comment_id =
              Some (c\<lparr>c_content := (case map_of kvs ''content'' of None \<Rightarrow> c_content c | Some v \<Rightarrow> v),
                      c_author := (case map_of kvs ''author'' of None \<Rightarrow> c_author c | Some a \<Rightarrow> a),
                      c_updated_at := now\<rparr>)
          \<and> map_option c_updated_at
              (dict_get (comments (snd (update_comment comment_id (JObj kvs) now st))) comment_id) =
              Some now)
       \<and> (kvs \<noteq> [] \<and> ''content'' \<notin> fst ` set kvs \<and> ''author'' \<notin> fst ` set kvs \<longrightarrow>
            fst (update_comment comment_id (JObj kvs) now st) =
              Inr (200, json_of_comment (c\<lparr>c_updated_at := now\<rparr>))
          \<and> dict_get (comments (snd (update_comment comment_id (JObj kvs) now st))) comment_id =
              Some (c\<lparr>c_updated_at := now\<rparr>)
          \<and> map_option c_content
              (dict_get (comments (snd (update_comment comment_id (JObj kvs) now st))) comment_id) =
              Some (c_content c)
          \<and> map_option c_author
              (dict_get (comments (snd (update_comment comment_id (JObj kvs) now st))) comment_id) =
              Some (c_author c))
       \<and> (xs \<noteq> [] \<and> JStr ''content'' \<notin> set xs \<and> JStr ''author'' \<notin> set xs \<longrightarrow>
            fst (update_comment comment_id (JArr xs) now st) =
              Inr (200, json_of_comment (c\<lparr>c_updated_at := now\<rparr>))
          \<and> dict_get (comments (snd (update_comment comment_id (JArr xs) now st))) comment_id =
              Some (c\<lparr>c_updated_at := now\<rparr>))
       \<and> (txt \<noteq> [] \<and> \<not> str_contains txt ''content'' \<and> \<not> str_contains txt ''author'' \<longrightarrow>
            fst (update_comment comment_id (JStr txt) now st) =
              Inr (200, json_of_comment (c\<lparr>c_updated_at := now\<rparr>))
          \<and> dict_get (comments (snd (update_comment comment_id (JStr txt) now st))) comment_id =
              Some (c\<lparr>c_updated_at := now\<rparr>))
       \<and> (\<forall>body. fst (update_comment comment_id data now st) = Inr (200, body) \<longrightarrow>
            map_option c_updated_at
              (dict_get (comments (snd (update_comment comment_id data now st))) comment_id) = Some now
          \<and> map_option json_of_comment
              (dict_get (comments (snd (update_comment comment_id data now st))) comment_id) = Some body)"
proof -
  have author: "update_comment_author (JObj kvs) c' =
      Continue (c'\<lparr>c_author := (case map_of kvs ''author'' of None \<Rightarrow> c_author c' | Some a \<Rightarrow> a)\<rparr>)"
    for c'
  proof (cases "map_of kvs ''author''")
    case None
    then have "''author'' \<notin> fst ` set kvs" by (simp add: map_of_eq_None_iff)
    with None show ?thesis by (simp add: update_comment_author_def)
  next
    case (Some a)
    then have "''author'' \<in> fst ` set kvs" by (metis map_of_eq_None_iff option.distinct(1))
    with Some show ?thesis by (simp add: update_comment_author_def)
  qed
  have valid: "fst (update_comment comment_id (JObj kvs) now st) =
              Inr (200, json_of_comment
                (c\<lparr>c_content := (case map_of kvs ''content'' of None \<Rightarrow> c_content c | Some v \<Rightarrow> v),
                   c_author := (case map_of kvs ''author'' of None \<Rightarrow> c_author c | Some a \<Rightarrow> a),
                   c_updated_at := now\<rparr>))
          \<and> dict_get (comments (snd (update_comment comment_id (JObj kvs) now st))) comment_id =
              Some (c\<lparr>c_content := (case map_of kvs ''content'' of None \<Rightarrow> c_content c | Some v \<Rightarrow> v),
                      c_author := (case map_of kvs ''author'' of None \<Rightarrow> c_author c | Some a \<Rightarrow> a),
                      c_updated_at := now\<rparr>)
          \<and> map_option c_updated_at
              (dict_get (comments (snd (update_comment comment_id (JObj kvs) now st))) comment_id) =
              Some now"
    if ne: "kvs \<noteq> []"
      and ok: "map_of kvs ''content'' = None
               \<or> (\<exists>s. map_of kvs ''content'' = Some (JStr s) \<and> str_strip s \<noteq> [])"
  proof -
    have content: "update_comment_content (JObj kvs) c =
        Continue (c\<lparr>c_content := (case map_of kvs ''content'' of None \<Rightarrow> c_content c | Some v \<Rightarrow> v)\<rparr>)"
    proof (cases "map_of kvs ''content''")
      case None
      then have "''content'' \<notin> fst ` set kvs" by (simp add: map_of_eq_None_iff)
      with None show ?thesis by (simp add: update_comment_content_def)
    next
      case (Some v)
      with ok obtain s where s: "v = JStr s" "str_strip s \<noteq> []" by auto
      from Some have "''content'' \<in> fst ` set kvs" by (metis map_of_eq_None_iff option.distinct(1))
      with Some s show ?thesis by (simp add: update_comment_content_def)
    qed
    show ?thesis
      using assms ne
      by (simp add: update_comment_def content author Let_def comments_save_data dict_get_set_same
            split: option.splits)
  qed
  have unk: "fst (update_comment comment_id (JObj kvs) now st) =
              Inr (200, json_of_comment (c\<lparr>c_updated_at := now\<rparr>))
          \<and> dict_get (comments (snd (update_comment comment_id (JObj kvs) now st))) comment_id =
              Some (c\<lparr>c_updated_at := now\<rparr>)"
    if "kvs \<noteq> []" and "''content'' \<notin> fst ` set kvs" and "''author'' \<notin> fst ` set kvs"
    using that assms
    by (simp add: update_comment_def update_comment_content_def update_comment_author_def
          Let_def comments_save_data dict_get_set_same)
  have arr: "fst (update_comment comment_id (JArr xs) now st) =
              Inr (200, json_of_comment (c\<lparr>c_updated_at := now\<rparr>))
          \<and> dict_get (comments (snd (update_comment comment_id (JArr xs) now st))) comment_id =
              Some (c\<lparr>c_updated_at := now\<rparr>)"
    if "xs \<noteq> []" and "JStr ''content'' \<notin> set xs" and "JStr ''author'' \<notin> set xs"
    using that assms
    by (simp add: update_comment_def update_comment_content_def update_comment_author_def
          Let_def comments_save_data dict_get_set_same)
  have str: "fst (update_comment comment_id (JStr txt) now st) =
              Inr (200, json_of_comment (c\<lparr>c_updated_at := now\<rparr>))
          \<and> dict_get (comments (snd (update_comment comment_id (JStr txt) now st))) comment_id =
              Some (c\<lparr>c_updated_at := now\<rparr>)"
    if "txt \<noteq> []" and "\<not> str_contains txt ''content''" and "\<not> str_contains txt ''author''"
    using that assms
    by (simp add: update_comment_def update_comment_content_def update_comment_author_def
          Let_def comments_save_data dict_get_set_same)
  have ok: "map_option c_updated_at
              (dict_get (comments (snd (update_comment comment_id data now st))) comment_id) = Some now
          \<and> map_option json_of_comment
              (dict_get (comments (snd (update_comment comment_id data now st))) comment_id) = Some body"
    if "fst (update_comment comment_id data now st) = Inr (200, body)" for body
    using that assms
    by (auto simp: update_comment_def update_comment_content_def update_comment_author_def
          Let_def comments_save_data dict_get_set_same
          split: if_splits sum.splits bool.splits step.splits)
  from valid unk arr str ok show ?thesis by simp
qed


theorem update_comment_refreshes_updated_at_witness:
  "dict_get (comments demo_store) ''c1'' =
     Some (demo_comment ''c1'' ''t1'' ''2024-05-01T10:00:01+00:00'')
   \<and> str_strip ''Updated content'' \<noteq> []
   \<and> fst (update_comment ''c1''
            (JObj [(''content'', JStr ''Updated content''), (''author'', JStr ''Bob'')])
            ''2024-05-02T08:00:00+00:00'' demo_store) =
       Inr (200, JObj [(''id'', JStr ''c1''), (''task_id'', JStr ''t1''),
                       (''content'', JStr ''Updated content''), (''author'', JStr ''Bob''),
                       (''created_at'', JStr ''2024-05-01T10:00:01+00:00''),
                       (''updated_at'', JStr ''2024-05-02T08:00:00+00:00'')])
   \<and> map_option c_updated_at
        (dict_get (comments (snd (update_comment ''c1''
            (JObj [(''content'', JStr ''Updated content''), (''author'', JStr ''Bob'')])
            ''2024-05-02T08:00:00+00:00'' demo_store))) ''c1'') =
       Some ''2024-05-02T08:00:00+00:00''
   \<and> fst (update_comment ''c1'' (JObj [(''priority'', JStr ''high'')])
            ''2024-05-02T08:00:00+00:00'' demo_store) =
       Inr (200, JObj [(''id'', JStr ''c1''), (''task_id'', JStr ''t1''),
                       (''content'', JStr ''note''), (''author'', JStr ''Anonymous''),
                       (''created_at'', JStr ''2024-05-01T10:00:01+00:00''),
                       (''updated_at'', JStr ''2024-05-02T08:00:00+00:00'')])
   \<and> map_option c_updated_at
        (dict_get (comments (snd (update_comment ''c1'' (JObj [(''priority'', JStr ''high'')])
            ''2024-05-02T08:00:00+00:00'' demo_store))) ''c1'') =
       Some ''2024-05-02T08:00:00+00:00''
   \<and> map_option c_content
        (dict_get (comments (snd (update_comment ''c1'' (JObj [(''priority'', JStr ''high'')])
            ''2024-05-02T08:00:00+00:00'' demo_store))) ''c1'') =
       Some (JStr ''note'')
   \<and> map_option c_author
        (dict_get (comments (snd (update_comment ''c1'' (JObj [(''priority'', JStr ''high'')])
            ''2024-05-02T08:00:00+00:00'' demo_store))) ''c1'') =
       Some (JStr ''Anonymous'')"
proof -
  have h: "dict_get (comments demo_store) ''c1'' =
     Some (demo_comment ''c1'' ''t1'' ''2024-05-01T10:00:01+00:00'')"
    by (simp add: demo_store_def dict_get_def)
  have s: "str_strip ''Updated content'' \<noteq> []"
    by (simp add: str_strip_def py_isspace_def)
  from update_comment_refreshes_updated_at
         [OF h, where kvs = "[(''content'', JStr ''Updated content''), (''author'', JStr ''Bob'')]"
            and now = "''2024-05-02T08:00:00+00:00''"] s
  have a: "fst (update_comment ''c1''
            (JObj [(''content'', JStr ''Updated content''), (''author'', JStr ''Bob'')])
            ''2024-05-02T08:00:00+00:00'' demo_store) =
       Inr (200, JObj [(''id'', JStr ''c1''), (''task_id'', JStr ''t1''),
                       (''content'', JStr ''Updated content''), (''author'', JStr ''Bob''),
                       (''created_at'', JStr ''2024-05-01T10:00:01+00:00''),
                       (''updated_at'', JStr ''2024-05-02T08:00:00+00:00'')])
   \<and> map_option c_updated_at
        (dict_get (comments (snd (update_comment ''c1''
            (JObj [(''content'', JStr ''Updated content''), (''author'', JStr ''Bob'')])
            ''2024-05-02T08:00:00+00:00'' demo_store))) ''c1'') =
       Some ''2024-05-02T08:00:00+00:00''"
    by (simp add: demo_comment_def json_of_comment_def)
  from update_comment_refreshes_updated_at
         [OF h, where kvs = "[(''priority'', JStr ''high'')]"
            and now = "''2024-05-02T08:00:00+00:00''"]
  have b: "fst (update_comment ''c1'' (JObj [(''priority'', JStr ''high'')])
            ''2024-05-02T08:00:00+00:00'' demo_store) =
       Inr (200, JObj [(''id'', JStr ''c1''), (''task_id'', JStr ''t1''),
                       (''content'', JStr ''note''), (''author'', JStr ''Anonymous''),
                       (''created_at'', JStr ''2024-05-01T10:00:01+00:00''),
                       (''updated_at'', JStr ''2024-05-02T08:00:00+00:00'')])
   \<and> map_option c_updated_at
        (dict_get (comments (snd (update_comment ''c1'' (JObj [(''priority'', JStr ''high'')])
            ''2024-05-02T08:00:00+00:00'' demo_store))) ''c1'') =
       Some ''2024-05-02T08:00:00+00:00''
   \<and> map_option c_content
        (dict_get (comments (snd (update_comment ''c1'' (JObj [(''priority'', JStr ''high'')])
            ''2024-05-02T08:00:00+00:00'' demo_store))) ''c1'') =
       Some (JStr ''note'')
   \<and> map_option c_author
        (dict_get (comments (snd (update_comment ''c1'' (JObj [(''priority'', JStr ''high'')])
            ''2024-05-02T08:00:00+00:00'' demo_store))) ''c1'') =
       Some (JStr ''Anonymous'')"
    by (simp add: demo_comment_def json_of_comment_def)
  from h s a b show ?thesis by blast
qed

section \<open>Values that are not strings\<close>

lemma py_strip_non_string: "\<forall>s. v \<noteq> JStr s \<Longrightarrow> py_strip v = Inl AttributeError"
  by (cases v) simp_all

lemma map_of_Some_key: "map_of kvs k = Some v \<Longrightarrow> kvs \<noteq> [] \<and> k \<in> fst ` set kvs"
  by (metis map_of_eq_None_iff option.distinct(1) map_of.simps(1))

text \<open>
  Claim C10. Let \<open>v\<close> be a JSON value that is not a string (a number, \<open>null\<close>, a
  boolean, a list, an object). A body whose \<open>title\<close> is \<open>v\<close> makes \<open>update_task\<close> on an
  existing task raise \<open>AttributeError\<close> from \<open>strip\<close>; a body whose \<open>content\<close> is \<open>v\<close>
  does the same to \<open>create_comment\<close> and to \<open>update_comment\<close> on an existing comment. No
  response is built (so no 400) and the store is as it was. \<open>create_task\<close>, which never
  calls \<open>strip\<close>, answers a body whose \<open>title\<close> is \<open>v\<close> with 201 and stores \<open>v\<close> as the
  title.
\<close>

theorem non_string_value_escapes_validation:
  assumes "\<forall>s. v \<noteq> JStr s"
  shows "(dict_get (tasks st) task_id = Some t \<and> map_of kvs ''title'' = Some v \<longrightarrow>
            update_task task_id (JObj kvs) st = (Inl AttributeError, st))
       \<and> (map_of kvs ''content'' = Some v \<longrightarrow>
            create_comment task_id (JObj kvs) comment_id now1 now2 st = (Inl AttributeError, st))
       \<and> (dict_get (comments st) comment_id = Some c \<and> map_of kvs ''content'' = Some v \<longrightarrow>
            update_comment comment_id (JObj kvs) now st = (Inl AttributeError, st))
       \<and> (map_of kvs ''title'' = Some v \<longrightarrow>
            fst (create_task (JObj kvs) task_id now st) =
              Inr (201, json_of_task
                \<lparr>t_id = task_id, t_title = v,
                 t_description = (case map_of kvs ''description'' of None \<Rightarrow> JStr '''' | Some d \<Rightarrow> d),
                 t_created_at = now\<rparr>)
          \<and> dict_get (tasks (snd (create_task (JObj kvs) task_id now st))) task_id =
              Some \<lparr>t_id = task_id, t_title = v,
                 t_description = (case map_of kvs ''description'' of None \<Rightarrow> JStr '''' | Some d \<Rightarrow> d),
                 t_created_at = now\<rparr>)"
proof -
  note strip = py_strip_non_string [OF assms]
  have a: "update_task task_id (JObj kvs) st = (Inl AttributeError, st)"
    if "dict_get (tasks st) task_id = Some t" and "map_of kvs ''title'' = Some v"
    using that strip map_of_Some_key [OF that(2)]
    by (simp add: update_task_def update_task_title_def)
  have b: "create_comment task_id (JObj kvs) comment_id now1 now2 st = (Inl AttributeError, st)"
    if "map_of kvs ''content'' = Some v"
    using that strip map_of_Some_key [OF that]
    by (simp add: create_comment_def)
  have c: "update_comment comment_id (JObj kvs) now st = (Inl AttributeError, st)"
    if "dict_get (comments st) comment_id = Some c" and "map_of kvs ''content'' = Some v"
    using that strip map_of_Some_key [OF that(2)]
    by (simp add: update_comment_def update_comment_content_def)
  have d: "fst (create_task (JObj kvs) task_id now st) =
              Inr (201, json_of_task
                \<lparr>t_id = task_id, t_title = v,
                 t_description = (case map_of kvs ''description'' of None \<Rightarrow> JStr '''' | Some d \<Rightarrow> d),
                 t_created_at = now\<rparr>)
          \<and> dict_get (tasks (snd (create_task (JObj kvs) task_id now st))) task_id =
              Some \<lparr>t_id = task_id, t_title = v,
                 t_description = (case map_of kvs ''description'' of None \<Rightarrow> JStr '''' | Some d \<Rightarrow> d),
                 t_created_at = now\<rparr>"
    if "map_of kvs ''title'' = Some v"
    using that map_of_Some_key [OF that]
    by (simp add: create_task_def Let_def tasks_save_data dict_get_set_same split: option.splits)
  from a b c d show ?thesis by blast
qed


theorem non_string_value_escapes_validation_witness:
  "(\<forall>s. JNum 5 \<noteq> JStr s) \<and> (\<forall>s. JNull \<noteq> JStr s)
   \<and> dict_get (tasks demo_store) ''t1'' = Some demo_task
   \<and> update_task ''t1'' (JObj [(''title'', JNum 5)]) demo_store = (Inl AttributeError, demo_store)
   \<and> update_task ''t1'' (JObj [(''title'', JNull)]) demo_store = (Inl AttributeError, demo_store)
   \<and> create_comment ''t1'' (JObj [(''content'', JNum 5)]) ''c4''
        ''2024-05-01T10:00:04+00:00'' ''2024-05-01T10:00:04+00:00'' demo_store =
        (Inl AttributeError, demo_store)
   \<and> dict_get (comments demo_store) ''c1'' =
        Some (demo_comment ''c1'' ''t1'' ''2024-05-01T10:00:01+00:00'')
   \<and> update_comment ''c1'' (JObj [(''content'', JNum 5)]) ''2024-05-01T10:00:04+00:00'' demo_store =
        (Inl AttributeError, demo_store)
   \<and> fst (create_task (JObj [(''title'', JNum 5)]) ''t2'' ''2024-05-01T10:00:04+00:00'' demo_store) =
        Inr (201, JObj [(''id'', JStr ''t2''), (''title'', JNum 5), (''description'', JStr ''''),
                        (''created_at'', JStr ''2024-05-01T10:00:04+00:00'')])
   \<and> dict_get (tasks (snd (create_task (JObj [(''title'', JNum 5)]) ''t2''
                               ''2024-05-01T10:00:04+00:00'' demo_store))) ''t2'' =
        Some \<lparr>t_id = ''t2'', t_title = JNum 5, t_description = JStr '''',
               t_created_at = ''2024-05-01T10:00:04+00:00''\<rparr>"
proof -
  have n5: "\<forall>s. JNum 5 \<noteq> JStr s" and nn: "\<forall>s. JNull \<noteq> JStr s" by simp_all
  have ht: "dict_get (tasks demo_store) ''t1'' = Some demo_task"
    by (simp add: demo_store_def dict_get_def)
  have hc: "dict_get (comments demo_store) ''c1'' =
        Some (demo_comment ''c1'' ''t1'' ''2024-05-01T10:00:01+00:00'')"
    by (simp add: demo_store_def dict_get_def)
  from non_string_value_escapes_validation
         [OF n5, where st = demo_store and task_id = "''t1''" and t = demo_task
            and kvs = "[(''title'', JNum 5)]"] ht
  have a: "update_task ''t1'' (JObj [(''title'', JNum 5)]) demo_store = (Inl AttributeError, demo_store)"
    by simp
  from non_string_value_escapes_validation
         [OF nn, where st = demo_store and task_id = "''t1''" and t = demo_task
            and kvs = "[(''title'', JNull)]"] ht
  have a': "update_task ''t1'' (JObj [(''title'', JNull)]) demo_store = (Inl AttributeError, demo_store)"
    by simp
  from non_string_value_escapes_validation
         [OF n5, where st = demo_store and task_id = "''t1''" and kvs = "[(''content'', JNum 5)]"
            and comment_id = "''c4''" and ?now1.0 = "''2024-05-01T10:00:04+00:00''"
            and ?now2.0 = "''2024-05-01T10:00:04+00:00''"]
  have b: "create_comment ''t1'' (JObj [(''content'', JNum 5)]) ''c4''
        ''2024-05-01T10:00:04+00:00'' ''2024-05-01T10:00:04+00:00'' demo_store =
        (Inl AttributeError, demo_store)"
    by simp
  from non_string_value_escapes_validation
         [OF n5, where st = demo_store and kvs = "[(''content'', JNum 5)]"
            and comment_id = "''c1''"
            and c = "demo_comment ''c1'' ''t1'' ''2024-05-01T10:00:01+00:00''"
            and now = "''2024-05-01T10:00:04+00:00''"] hc
  have c: "update_comment ''c1'' (JObj [(''content'', JNum 5)]) ''2024-05-01T10:00:04+00:00'' demo_store =
        (Inl AttributeError, demo_store)"
    by simp
  from non_string_value_escapes_validation
         [OF n5, where st = demo_store and task_id = "''t2''" and kvs = "[(''title'', JNum 5)]"
            and now = "''2024-05-01T10:00:04+00:00''"]
  have d: "fst (create_task (JObj [(''title'', JNum 5)]) ''t2'' ''2024-05-01T10:00:04+00:00'' demo_store) =
        Inr (201, JObj [(''id'', JStr ''t2''), (''title'', JNum 5), (''description'', JStr ''''),
                        (''created_at'', JStr ''2024-05-01T10:00:04+00:00'')])
   \<and> dict_get (tasks (snd (create_task (JObj [(''title'', JNum 5)]) ''t2''
                               ''2024-05-01T10:00:04+00:00'' demo_store))) ''t2'' =
        Some \<lparr>t_id = ''t2'', t_title = JNum 5, t_description = JStr '''',
               t_created_at = ''2024-05-01T10:00:04+00:00''\<rparr>"
    by (simp add: json_of_task_def)
  from n5 nn ht hc a a' b c d show ?thesis by blast
qed

section \<open>Listing the comments of a task\<close>

text \<open>The sort keeps the elements, orders them by descending key and is stable.\<close>

lemma py_sort_reverse_mset: "mset (py_sort_reverse key xs) = mset xs"
  by (simp add: py_sort_reverse_def)

lemma py_sort_reverse_descending:
  "sorted_wrt (\<lambda>a b. key a \<ge> key b) (py_sort_reverse key xs)"
proof -
  have "sorted (map key (sort_key key (rev xs)))" by simp
  then have "sorted_wrt (\<lambda>x y. key x \<le> key y) (sort_key key (rev xs))"
    by (simp only: sorted_map)
  then show ?thesis
    by (simp add: py_sort_reverse_def sorted_wrt_rev)
qed

lemma py_sort_reverse_stable:
  "filter (\<lambda>x. key x = k) (py_sort_reverse key xs) = filter (\<lambda>x. key x = k) xs"
proof -
  have "filter (\<lambda>x. key x = k) (py_sort_reverse key xs) =
        rev (filter (\<lambda>x. key x = k) (sort_key key (rev xs)))"
    by (simp add: py_sort_reverse_def rev_filter)
  also have "\<dots> = rev (filter (\<lambda>x. key x = k) (rev xs))"
    by (simp only: sort_key_stable)
  also have "\<dots> = filter (\<lambda>x. key x = k) xs"
    by (simp add: rev_filter)
  finally show ?thesis .
qed

lemma py_sort_reverse_length: "length (py_sort_reverse key xs) = length xs"
  by (simp add: py_sort_reverse_def)

text \<open>
  Claim C5. For every task id, in the store or not, \<open>get_comments\<close> answers 200 and
  leaves the store alone; it never raises and never answers an error. The body holds
  the task id, a list \<open>cs\<close> and its length as \<open>count\<close>, where \<open>cs\<close> has exactly the
  comments of the store whose \<open>task_id\<close> is the given id (as a multiset: each as often
  as it is stored), in descending order of \<open>created_at\<close>, comments with equal
  \<open>created_at\<close> in the order of the dict. When no comment matches, \<open>cs\<close> is empty and
  \<open>count\<close> is 0.
\<close>

theorem get_comments_sorted_newest_first:
  "\<exists>cs. get_comments task_id st =
          (Inr (200, JObj [(''task_id'', JStr task_id),
                           (''comments'', JArr (map json_of_comment cs)),
                           (''count'', JNum (int (length cs)))]), st)
      \<and> mset cs = mset (filter (\<lambda>c. c_task_id c = task_id) (dict_values (comments st)))
      \<and> sorted_wrt (\<lambda>a b. c_created_at a \<ge> c_created_at b) cs
      \<and> (\<forall>k. filter (\<lambda>c. c_created_at c = k) cs =
               filter (\<lambda>c. c_created_at c = k)
                 (filter (\<lambda>c. c_task_id c = task_id) (dict_values (comments st))))
      \<and> length cs = length (filter (\<lambda>c. c_task_id c = task_id) (dict_values (comments st)))"
proof (intro exI conjI allI)
  show "get_comments task_id st =
          (Inr (200, JObj [(''task_id'', JStr task_id),
                (''comments'', JArr (map json_of_comment
                    (py_sort_reverse c_created_at (get_comments_by_task task_id st)))),
                (''count'', JNum (int (length
                    (py_sort_reverse c_created_at (get_comments_by_task task_id st)))))]), st)"
    by (simp add: get_comments_def Let_def)
  show "mset (py_sort_reverse c_created_at (get_comments_by_task task_id st)) =
        mset (filter (\<lambda>c. c_task_id c = task_id) (dict_values (comments st)))"
    by (simp only: py_sort_reverse_mset get_comments_by_task_def)
  show "sorted_wrt (\<lambda>a b. c_created_at a \<ge> c_created_at b)
          (py_sort_reverse c_created_at (get_comments_by_task task_id st))"
    by (rule py_sort_reverse_descending)
  show "filter (\<lambda>c. c_created_at c = k)
          (py_sort_reverse c_created_at (get_comments_by_task task_id st)) =
        filter (\<lambda>c. c_created_at c = k)
          (filter (\<lambda>c. c_task_id c = task_id) (dict_values (comments st)))" for k
    by (simp only: py_sort_reverse_stable get_comments_by_task_def)
  show "length (py_sort_reverse c_created_at (get_comments_by_task task_id st)) =
        length (filter (\<lambda>c. c_task_id c = task_id) (dict_values (comments st)))"
    by (simp only: py_sort_reverse_length get_comments_by_task_def)
qed

text \<open>On the example store: the two comments of \<open>t1\<close>, newest first, and none for an
  unknown id.\<close>

lemma get_comments_example:
  "get_comments ''t1'' demo_store =
     (Inr (200, JObj [(''task_id'', JStr ''t1''),
        (''comments'', JArr [json_of_comment (demo_comment ''c3'' ''t1'' ''2024-05-01T10:00:03+00:00''),
                            json_of_comment (demo_comment ''c1'' ''t1'' ''2024-05-01T10:00:01+00:00'')]),
        (''count'', JNum 2)]), demo_store)
   \<and> get_comments ''t9'' demo_store =
     (Inr (200, JObj [(''task_id'', JStr ''t9''), (''comments'', JArr []), (''count'', JNum 0)]),
      demo_store)"
  by (simp add: get_comments_def get_comments_by_task_def dict_values_def demo_store_def
        demo_comment_def py_sort_reverse_def Let_def)

section \<open>Saving and loading\<close>

lemma task_of_json_of_task: "task_of_json (json_of_task t) = Some t"
  by (simp add: task_of_json_def json_of_task_def)

lemma comment_of_json_of_comment: "comment_of_json (json_of_comment c) = Some c"
  by (simp add: comment_of_json_def json_of_comment_def)

lemma entries_of_json_inverse:
  assumes "\<And>v. dec (enc v) = Some v"
  shows "entries_of_json dec (map (\<lambda>kv. (fst kv, enc (snd kv))) d) = Some d"
  by (induction d) (auto simp: assms)

lemma tasks_of_json_of_tasks: "tasks_of_json (json_of_tasks d) = Some d"
  by (simp add: tasks_of_json_def json_of_tasks_def entries_of_json_inverse task_of_json_of_task)

lemma comments_of_json_of_comments: "comments_of_json (json_of_comments d) = Some d"
  by (simp add: comments_of_json_def json_of_comments_def entries_of_json_inverse
        comment_of_json_of_comment)

text \<open>
  A write that fails is swallowed by \<open>save_data\<close>: the file is left as it was or left
  truncated, and a restart then does not find the mappings again.
\<close>

lemma save_data_open_fails: "disk st = OpenFails \<Longrightarrow> save_data st = st"
  by (simp add: save_data_def)

lemma load_data_after_failed_write:
  "disk st = WriteFails \<Longrightarrow> load_data (cleared (save_data st)) = Some (cleared (save_data st))"
  by (simp add: save_data_def load_data_def cleared_def)

text \<open>
  Claim C3. When the write succeeds, loading the file that \<open>save_data\<close> wrote gives back
  the two mappings as they were saved, every field of every task and comment, whatever
  the dicts in memory hold at the time of loading (after a restart both are empty).
\<close>

theorem save_then_load_restores_mappings:
  assumes "disk st = DiskOk"
  shows "load_data (save_data st) = Some (save_data st)
       \<and> load_data (cleared (save_data st)) = Some (save_data st)
       \<and> (\<forall>ts cs. load_data ((save_data st)\<lparr>tasks := ts, comments := cs\<rparr>) = Some (save_data st))
       \<and> tasks (save_data st) = tasks st
       \<and> comments (save_data st) = comments st"
  using assms
  by (simp add: load_data_def save_data_def cleared_def json_of_tasks_def json_of_comments_def
        tasks_of_json_of_tasks [unfolded json_of_tasks_def]
        comments_of_json_of_comments [unfolded json_of_comments_def])

theorem save_then_load_restores_mappings_witness:
  "disk demo_store = DiskOk
   \<and> map_option tasks (load_data (cleared (save_data demo_store))) = Some (tasks demo_store)
   \<and> map_option comments (load_data (cleared (save_data demo_store))) = Some (comments demo_store)
   \<and> tasks (cleared (save_data demo_store)) = []
   \<and> comments (cleared (save_data demo_store)) = []"
proof -
  have h: "disk demo_store = DiskOk" by (simp add: demo_store_def)
  from save_then_load_restores_mappings [OF h] h show ?thesis
    by (simp add: cleared_def)
qed

end
